theory Spec2Isabelle
  imports Main "HOL-Library.Char_ord" "HOL-Library.List_Lexorder"
begin

section \<open>Python values as the two scripts see them\<close>

text \<open>
  Both scripts read their input with \<^verbatim>\<open>yaml.safe_load\<close> and then work on the
  parsed document by duck typing: \<^verbatim>\<open>.get\<close>, \<^verbatim>\<open>in\<close>, \<^verbatim>\<open>len\<close>, iteration,
  truthiness, \<^verbatim>\<open>==\<close> and \<^verbatim>\<open><\<close>. A parsed document is null, a boolean, an
  integer, a string, a sequence or a mapping; the keys of a mapping are hashable, so
  they are scalars. Floats, timestamps and binary data are outside this model. A string
  is the list of its characters (code points below 256), so \<^verbatim>\<open>len\<close> and the
  ordering of strings are those of Python. A mapping keeps its items in insertion order,
  as a Python dict does, and holds no two equal keys.
\<close>

datatype scalar = SNull | SBool bool | SInt int | SStr string

datatype yaml = YScalar scalar | YList "yaml list" | YMap "(scalar \<times> yaml) list"

abbreviation YNull :: yaml where "YNull \<equiv> YScalar SNull"
abbreviation YBool :: "bool \<Rightarrow> yaml" where "YBool b \<equiv> YScalar (SBool b)"
abbreviation YInt :: "int \<Rightarrow> yaml" where "YInt i \<equiv> YScalar (SInt i)"
abbreviation YStr :: "string \<Rightarrow> yaml" where "YStr s \<equiv> YScalar (SStr s)"

text \<open>The exceptions that the operations below raise, and those of opening and parsing a file.\<close>

datatype exn =
  AttributeError | TypeError | KeyError | StopIteration | OSError | YAMLError | NotADirectoryError

text \<open>\<^verbatim>\<open>bool(x)\<close>: what \<^verbatim>\<open>if x:\<close> tests.\<close>

fun truthy :: "yaml \<Rightarrow> bool" where
  "truthy (YScalar SNull) = False"
| "truthy (YScalar (SBool b)) = b"
| "truthy (YScalar (SInt i)) = (i \<noteq> 0)"
| "truthy (YScalar (SStr s)) = (s \<noteq> [])"
| "truthy (YList xs) = (xs \<noteq> [])"
| "truthy (YMap m) = (m \<noteq> [])"

text \<open>\<^verbatim>\<open>a == b\<close> on scalars: a boolean is the integer 0 or 1.\<close>

fun scalar_eq :: "scalar \<Rightarrow> scalar \<Rightarrow> bool" where
  "scalar_eq SNull SNull = True"
| "scalar_eq (SBool a) (SBool b) = (a = b)"
| "scalar_eq (SBool a) (SInt j) = ((if a then 1 else 0) = j)"
| "scalar_eq (SInt i) (SBool b) = (i = (if b then 1 else 0))"
| "scalar_eq (SInt i) (SInt j) = (i = j)"
| "scalar_eq (SStr s) (SStr t) = (s = t)"
| "scalar_eq _ _ = False"

text \<open>\<^verbatim>\<open>a < b\<close> on scalars: numbers with numbers, strings with strings.\<close>

fun scalar_lt :: "scalar \<Rightarrow> scalar \<Rightarrow> exn + bool" where
  "scalar_lt (SBool a) (SBool b) = Inr (\<not> a \<and> b)"
| "scalar_lt (SBool a) (SInt j) = Inr ((if a then 1 else 0) < j)"
| "scalar_lt (SInt i) (SBool b) = Inr (i < (if b then 1 else 0))"
| "scalar_lt (SInt i) (SInt j) = Inr (i < j)"
| "scalar_lt (SStr s) (SStr t) = Inr (s < t)"
| "scalar_lt _ _ = Inl TypeError"

text \<open>Dict lookup: the first (and only) item whose key equals the given one.\<close>

fun dict_lookup :: "(scalar \<times> 'v) list \<Rightarrow> scalar \<Rightarrow> 'v option" where
  "dict_lookup [] k = None"
| "dict_lookup ((k', v) # m) k = (if scalar_eq k' k then Some v else dict_lookup m k)"

definition dict_has :: "(scalar \<times> 'v) list \<Rightarrow> scalar \<Rightarrow> bool" where
  "dict_has m k = (dict_lookup m k \<noteq> None)"

text \<open>
  \<^verbatim>\<open>a == b\<close> on documents: sequences element by element, mappings as dicts (the same
  number of items, and every key of the left one is a key of the right one with an equal
  value).
\<close>

fun py_eq :: "yaml \<Rightarrow> yaml \<Rightarrow> bool" where
  "py_eq (YScalar a) y = (case y of YScalar b \<Rightarrow> scalar_eq a b | _ \<Rightarrow> False)"
| "py_eq (YList xs) y = (case y of YList ys \<Rightarrow> list_all2 py_eq xs ys | _ \<Rightarrow> False)"
| "py_eq (YMap a) y =
     (case y of
        YMap b \<Rightarrow> length a = length b \<and>
          list_all (\<lambda>(k, v). case dict_lookup b k of None \<Rightarrow> False | Some w \<Rightarrow> py_eq v w) a
      | _ \<Rightarrow> False)"

text \<open>
  \<^verbatim>\<open>a < b\<close> on documents: sequences compare at the first position where their
  elements are not equal, a shorter sequence is less than its extensions, and every
  other pair of kinds raises \<^verbatim>\<open>TypeError\<close>.
\<close>

fun py_lt :: "yaml \<Rightarrow> yaml \<Rightarrow> exn + bool" where
  "py_lt (YScalar a) (YScalar b) = scalar_lt a b"
| "py_lt (YList []) (YList ys) = Inr (ys \<noteq> [])"
| "py_lt (YList (x # xs)) (YList []) = Inr False"
| "py_lt (YList (x # xs)) (YList (y # ys)) =
     (if py_eq x y then py_lt (YList xs) (YList ys) else py_lt x y)"
| "py_lt _ _ = Inl TypeError"

text \<open>\<^verbatim>\<open>len(x)\<close>.\<close>

fun py_len :: "yaml \<Rightarrow> exn + nat" where
  "py_len (YScalar (SStr s)) = Inr (length s)"
| "py_len (YList xs) = Inr (length xs)"
| "py_len (YMap m) = Inr (length m)"
| "py_len _ = Inl TypeError"

text \<open>\<^verbatim>\<open>for x in v\<close>: the elements of a sequence, the keys of a mapping, the characters of a string.\<close>

fun py_iter :: "yaml \<Rightarrow> exn + yaml list" where
  "py_iter (YList xs) = Inr xs"
| "py_iter (YMap m) = Inr (map (\<lambda>(k, v). YScalar k) m)"
| "py_iter (YScalar (SStr s)) = Inr (map (\<lambda>c. YStr [c]) s)"
| "py_iter _ = Inl TypeError"

text \<open>Hashing a value, as a dict or a set does before it looks the value up.\<close>

fun py_hash :: "yaml \<Rightarrow> exn + scalar" where
  "py_hash (YScalar a) = Inr a"
| "py_hash _ = Inl TypeError"

text \<open>\<^verbatim>\<open>x.get(key)\<close> and \<^verbatim>\<open>x.get(key, default)\<close>: only a mapping has the method.\<close>

fun py_get :: "yaml \<Rightarrow> string \<Rightarrow> yaml \<Rightarrow> exn + yaml" where
  "py_get (YMap m) key dflt = Inr (case dict_lookup m (SStr key) of None \<Rightarrow> dflt | Some v \<Rightarrow> v)"
| "py_get _ key dflt = Inl AttributeError"

text \<open>\<^verbatim>\<open>x[key]\<close> with a string key: only a mapping can be indexed by a string.\<close>

fun py_index :: "yaml \<Rightarrow> string \<Rightarrow> exn + yaml" where
  "py_index (YMap m) key = (case dict_lookup m (SStr key) of None \<Rightarrow> Inl KeyError | Some v \<Rightarrow> Inr v)"
| "py_index _ key = Inl TypeError"

text \<open>\<^verbatim>\<open>isinstance(x, dict)\<close>.\<close>

fun is_dict :: "yaml \<Rightarrow> bool" where
  "is_dict (YMap m) = True"
| "is_dict _ = False"

text \<open>\<^verbatim>\<open>s in t\<close> on strings: \<open>s\<close> occurs in \<open>t\<close>.\<close>

fun is_substring :: "string \<Rightarrow> string \<Rightarrow> bool" where
  "is_substring s [] = (s = [])"
| "is_substring s (c # cs) = (take (length s) (c # cs) = s \<or> is_substring s cs)"

text \<open>
  \<^verbatim>\<open>x in c\<close>: a key of a mapping (after hashing \<open>x\<close>), an element of a sequence,
  a substring of a string (where \<open>x\<close> must be a string); nothing else is a container.
\<close>

fun py_in :: "yaml \<Rightarrow> yaml \<Rightarrow> exn + bool" where
  "py_in x (YMap m) = (case py_hash x of Inl e \<Rightarrow> Inl e | Inr k \<Rightarrow> Inr (dict_has m k))"
| "py_in x (YList ys) = Inr (list_ex (\<lambda>y. py_eq y x) ys)"
| "py_in x (YScalar (SStr t)) =
     (case x of YScalar (SStr s) \<Rightarrow> Inr (is_substring s t) | _ \<Rightarrow> Inl TypeError)"
| "py_in x _ = Inl TypeError"

text \<open>
  \<^verbatim>\<open>list.sort\<close> and \<^verbatim>\<open>sorted\<close> with a key function, modelled from Python's
  documentation: the sort is stable, it compares keys with \<^verbatim>\<open><\<close> only, and an
  exception of a comparison propagates. It is written as an insertion sort; a list of
  fewer than two elements is compared with nothing.
\<close>

fun py_insort :: "('a \<Rightarrow> yaml) \<Rightarrow> 'a \<Rightarrow> 'a list \<Rightarrow> exn + 'a list" where
  "py_insort key x [] = Inr [x]"
| "py_insort key x (y # ys) =
     (case py_lt (key y) (key x) of
        Inl e \<Rightarrow> Inl e
      | Inr True \<Rightarrow> (case py_insort key x ys of Inl e \<Rightarrow> Inl e | Inr zs \<Rightarrow> Inr (y # zs))
      | Inr False \<Rightarrow> Inr (x # y # ys))"

fun py_sort :: "('a \<Rightarrow> yaml) \<Rightarrow> 'a list \<Rightarrow> exn + 'a list" where
  "py_sort key [] = Inr []"
| "py_sort key (x # xs) =
     (case py_sort key xs of Inl e \<Rightarrow> Inl e | Inr ys \<Rightarrow> py_insort key x ys)"

text \<open>Sequencing of operations that may raise: the first exception ends the sequence.\<close>

definition and_then :: "exn + 'a \<Rightarrow> ('a \<Rightarrow> exn + 'b) \<Rightarrow> exn + 'b" where
  "and_then r f = (case r of Inl e \<Rightarrow> Inl e | Inr x \<Rightarrow> f x)"

section \<open>The template tree\<close>

text \<open>
  What a script finds at a path it opens: nothing, something that \<^verbatim>\<open>open\<close> cannot
  read (a directory of that name, a file without permission), a file that is not YAML,
  or a document.
\<close>

datatype yaml_file = Missing | Unreadable | Malformed | Parsed yaml

definition file_exists :: "yaml_file \<Rightarrow> bool" where
  "file_exists f = (f \<noteq> Missing)"

text \<open>\<^verbatim>\<open>with open(path) as f: yaml.safe_load(f)\<close>.\<close>

fun load_yaml :: "yaml_file \<Rightarrow> exn + yaml" where
  "load_yaml Missing = Inl OSError"
| "load_yaml Unreadable = Inl OSError"
| "load_yaml Malformed = Inl YAMLError"
| "load_yaml (Parsed d) = Inr d"

text \<open>What stands at a path that should be a directory, with its listing in the order \<^verbatim>\<open>iterdir\<close> gives it.\<close>

datatype 'a node = Absent | NotDir | Dir 'a

definition node_exists :: "'a node \<Rightarrow> bool" where
  "node_exists n = (n \<noteq> Absent)"

record version_dir =
  version_name :: string
  chart_yaml :: yaml_file
  values_yaml :: bool
  converters :: bool

datatype versions_entry = VFile string | VDir version_dir

record example_file =
  example_name :: string
  example_content :: yaml_file

record template_dir =
  dir_name :: string
  metadata_yaml :: yaml_file
  readme_md :: bool
  versions_dir :: "versions_entry list node"
  examples_dir :: "example_file list node"

datatype root_entry = RFile string | RDir template_dir

type_synonym templates_root = "root_entry list node"

section \<open>The registry builder (build-registry.py)\<close>

record template_entry =
  name :: yaml
  displayName :: yaml
  description :: yaml
  author :: yaml
  categories :: yaml
  tags :: yaml
  version :: yaml
  versions :: yaml
  features :: nat
  requirements :: yaml
  complexity :: yaml
  path :: yaml

text \<open>
  The field \<open>path\<close> holds the value that the source interpolates after
  \<^verbatim>\<open>templates/\<close>. The author set of the statistics is kept as the list of its
  elements, without duplicates; \<open>build_index\<close> replaces it by the sorted list.
\<close>

record stats_rec =
  total_templates :: nat
  total_versions :: nat
  authors :: "scalar list"

record registry =
  reg_version :: string
  generated :: string
  templates :: "template_entry list"
  reg_categories :: "(scalar \<times> yaml list) list"
  reg_tags :: "(scalar \<times> yaml list) list"
  stats :: stats_rec

text \<open>\<^verbatim>\<open>RegistryBuilder.__init__\<close>; the argument is the reading of the clock.\<close>

definition init_registry :: "string \<Rightarrow> registry" where
  "init_registry now =
     \<lparr>reg_version = ''1.0.0'', generated = now, templates = [], reg_categories = [], reg_tags = [],
      stats = \<lparr>total_templates = 0, total_versions = 0, authors = []\<rparr>\<rparr>"

text \<open>The dict literal of \<^verbatim>\<open>process_template\<close>, its values evaluated in the order of the source.\<close>

definition make_entry :: "yaml \<Rightarrow> exn + template_entry" where
  "make_entry metadata =
     and_then (py_get metadata ''name'' YNull) (\<lambda>v_name.
     and_then (py_get metadata ''displayName'' YNull) (\<lambda>v_displayName.
     and_then (py_get metadata ''description'' YNull) (\<lambda>v_description.
     and_then (py_get metadata ''author'' YNull) (\<lambda>v_author.
     and_then (py_get metadata ''categories'' YNull) (\<lambda>v_categories.
     and_then (py_get metadata ''tags'' (YList [])) (\<lambda>v_tags.
     and_then (py_get metadata ''version'' YNull) (\<lambda>v_version.
     and_then (py_get metadata ''versions'' YNull) (\<lambda>v_versions.
     and_then (and_then (py_get metadata ''features'' (YList [])) py_len) (\<lambda>v_features.
     and_then (py_get metadata ''requirements'' YNull) (\<lambda>v_requirements.
     and_then (py_get metadata ''complexity'' YNull) (\<lambda>v_complexity.
     and_then (py_get metadata ''name'' YNull) (\<lambda>v_path.
       Inr \<lparr>name = v_name, displayName = v_displayName, description = v_description,
            author = v_author, categories = v_categories, tags = v_tags, version = v_version,
            versions = v_versions, features = v_features, requirements = v_requirements,
            complexity = v_complexity, path = v_path\<rparr>))))))))))))"

text \<open>
  The statements of \<^verbatim>\<open>process_template\<close> change the registry in place, so a
  statement that raises leaves the changes made before it. A step returns the exception,
  if any, and the state as it then is.
\<close>

type_synonym 's step = "'s \<Rightarrow> exn option \<times> 's"

definition seq :: "'s step \<Rightarrow> 's step \<Rightarrow> 's step" where
  "seq f g r = (case f r of (None, r') \<Rightarrow> g r' | (Some e, r') \<Rightarrow> (Some e, r'))"

definition raising :: "exn + 'a \<Rightarrow> ('a \<Rightarrow> 's step) \<Rightarrow> 's step" where
  "raising v f r = (case v of Inl e \<Rightarrow> (Some e, r) | Inr x \<Rightarrow> f x r)"

text \<open>\<^verbatim>\<open>if k not in d: d[k] = []\<close> followed by \<^verbatim>\<open>d[k].append(n)\<close>.\<close>

fun dict_append :: "(scalar \<times> yaml list) list \<Rightarrow> scalar \<Rightarrow> yaml \<Rightarrow> (scalar \<times> yaml list) list" where
  "dict_append [] k n = []"
| "dict_append ((k', ns) # d) k n =
     (if scalar_eq k' k then (k', ns @ [n]) # d else (k', ns) # dict_append d k n)"

definition index_append :: "scalar \<Rightarrow> yaml \<Rightarrow> (scalar \<times> yaml list) list \<Rightarrow> (scalar \<times> yaml list) list" where
  "index_append k n d = dict_append (if dict_has d k then d else d @ [(k, [])]) k n"

definition append_template :: "template_entry \<Rightarrow> registry step" where
  "append_template entry r = (None, r\<lparr>templates := templates r @ [entry]\<rparr>)"

definition update_categories :: "yaml \<Rightarrow> registry step" where
  "update_categories metadata =
     raising (and_then (py_get metadata ''categories'' (YMap [])) (\<lambda>c. py_get c ''primary'' YNull))
       (\<lambda>primary_cat.
          if truthy primary_cat
          then raising (py_hash primary_cat) (\<lambda>k.
               raising (py_get metadata ''name'' YNull) (\<lambda>n r.
                 (None, r\<lparr>reg_categories := index_append k n (reg_categories r)\<rparr>)))
          else (\<lambda>r. (None, r)))"

fun tags_loop :: "yaml \<Rightarrow> yaml list \<Rightarrow> registry step" where
  "tags_loop metadata [] = (\<lambda>r. (None, r))"
| "tags_loop metadata (tag # rest) =
     seq (raising (py_hash tag) (\<lambda>k.
          raising (py_get metadata ''name'' YNull) (\<lambda>n r.
            (None, r\<lparr>reg_tags := index_append k n (reg_tags r)\<rparr>))))
         (tags_loop metadata rest)"

definition update_tags :: "yaml \<Rightarrow> registry step" where
  "update_tags metadata =
     raising (and_then (py_get metadata ''tags'' (YList [])) py_iter) (tags_loop metadata)"

definition count_template :: "registry step" where
  "count_template r = (None, r\<lparr>stats := (stats r)\<lparr>total_templates := total_templates (stats r) + 1\<rparr>\<rparr>)"

definition count_versions :: "yaml \<Rightarrow> registry step" where
  "count_versions metadata =
     raising (and_then (py_get metadata ''versions'' (YMap [])) py_len) (\<lambda>n r.
       (None, r\<lparr>stats := (stats r)\<lparr>total_versions := total_versions (stats r) + n\<rparr>\<rparr>))"

definition set_add :: "scalar \<Rightarrow> scalar list \<Rightarrow> scalar list" where
  "set_add k s = (if list_ex (\<lambda>x. scalar_eq x k) s then s else s @ [k])"

definition add_author :: "yaml \<Rightarrow> registry step" where
  "add_author metadata =
     raising (and_then (py_get metadata ''author'' (YMap [])) (\<lambda>a. py_get a ''name'' YNull))
       (\<lambda>author_name.
          if truthy author_name
          then raising (py_hash author_name) (\<lambda>k r.
                 (None, r\<lparr>stats := (stats r)\<lparr>authors := set_add k (authors (stats r))\<rparr>\<rparr>))
          else (\<lambda>r. (None, r)))"

text \<open>The body of the \<^verbatim>\<open>try\<close> of \<^verbatim>\<open>process_template\<close>, after the file is parsed.\<close>

definition process_metadata :: "yaml \<Rightarrow> registry step" where
  "process_metadata metadata =
     raising (make_entry metadata) (\<lambda>entry.
       seq (append_template entry)
      (seq (update_categories metadata)
      (seq (update_tags metadata)
      (seq count_template
      (seq (count_versions metadata)
           (add_author metadata))))))"

text \<open>
  \<^verbatim>\<open>process_template\<close>: the handler prints the exception and returns, so the
  result is the exception printed, if any, and the registry as the \<^verbatim>\<open>try\<close> left it.
\<close>

definition process_template :: "yaml_file \<Rightarrow> registry step" where
  "process_template metadata_file = raising (load_yaml metadata_file) process_metadata"

text \<open>\<^verbatim>\<open>template_path.name.startswith('.')\<close>.\<close>

fun hidden :: "string \<Rightarrow> bool" where
  "hidden [] = False"
| "hidden (c # cs) = (c = CHR ''.'')"

text \<open>\<^verbatim>\<open>scan_templates\<close>, over the listing of the templates directory.\<close>

fun scan_entries :: "root_entry list \<Rightarrow> registry \<Rightarrow> registry" where
  "scan_entries [] r = r"
| "scan_entries (RFile f # rest) r = scan_entries rest r"
| "scan_entries (RDir t # rest) r =
     (if \<not> hidden (dir_name t) \<and> file_exists (metadata_yaml t)
      then scan_entries rest (snd (process_template (metadata_yaml t) r))
      else scan_entries rest r)"

fun scan_templates :: "templates_root \<Rightarrow> registry \<Rightarrow> exn + registry" where
  "scan_templates (Dir entries) r = Inr (scan_entries entries r)"
| "scan_templates NotDir r = Inl NotADirectoryError"
| "scan_templates Absent r = Inl OSError"

text \<open>\<^verbatim>\<open>build_index\<close>.\<close>

fun sort_lists :: "(scalar \<times> yaml list) list \<Rightarrow> exn + (scalar \<times> yaml list) list" where
  "sort_lists [] = Inr []"
| "sort_lists ((k, ns) # d) =
     and_then (py_sort (\<lambda>n. n) ns) (\<lambda>ns'.
     and_then (sort_lists d) (\<lambda>d'. Inr ((k, ns') # d')))"

definition build_index :: "registry \<Rightarrow> exn + registry" where
  "build_index r =
     and_then (py_sort name (templates r)) (\<lambda>ts.
     and_then (sort_lists (reg_categories r)) (\<lambda>cs.
     and_then (sort_lists (reg_tags r)) (\<lambda>gs.
     and_then (py_sort YScalar (authors (stats r))) (\<lambda>as.
       Inr (r\<lparr>templates := ts, reg_categories := cs, reg_tags := gs,
              stats := (stats r)\<lparr>authors := as\<rparr>\<rparr>)))))"

text \<open>
  \<^verbatim>\<open>write_registry\<close> dumps the registry as YAML; every value of this model has
  a representation there, so the document written is the registry. The JSON copy that
  the source writes beside it, in which \<^verbatim>\<open>json.dumps\<close> turns the keys of every
  mapping into strings, is not modelled, nor are failures of the file system at writing.
\<close>

record written =
  yaml_document :: registry

definition write_registry :: "registry \<Rightarrow> written" where
  "write_registry r = \<lparr>yaml_document = r\<rparr>"

text \<open>
  \<^verbatim>\<open>generate_readme_snippet\<close>. The snippet is kept as the values that the source
  formats into it: the date, the two totals, for every category (in sorted order) its
  name and the display name, name and description of its templates, and the ten tags
  with the most templates. Items of a dict compare as tuples, that is as the sequence of
  the key and the value. \<^verbatim>\<open>reverse=True\<close> keeps the order of equal elements, as
  sorting by the negated count does.
\<close>

record snippet =
  last_updated :: string
  shown_templates :: nat
  shown_versions :: nat
  by_category :: "(string \<times> (yaml \<times> yaml \<times> yaml) list) list"
  popular_tags :: "(scalar \<times> nat) list"

fun find_template :: "template_entry list \<Rightarrow> yaml \<Rightarrow> exn + template_entry" where
  "find_template [] template_name = Inl StopIteration"
| "find_template (t # ts) template_name =
     (if py_eq (name t) template_name then Inr t else find_template ts template_name)"

fun category_lines :: "template_entry list \<Rightarrow> yaml list \<Rightarrow> exn + (yaml \<times> yaml \<times> yaml) list" where
  "category_lines ts [] = Inr []"
| "category_lines ts (template_name # rest) =
     and_then (find_template ts template_name) (\<lambda>t.
     and_then (category_lines ts rest) (\<lambda>ls.
       Inr ((displayName t, template_name, description t) # ls)))"

text \<open>\<^verbatim>\<open>category.title()\<close>: only a string has the method. The title-cased text is not modelled.\<close>

fun title_of :: "scalar \<Rightarrow> exn + string" where
  "title_of (SStr s) = Inr s"
| "title_of _ = Inl AttributeError"

fun category_sections ::
  "template_entry list \<Rightarrow> (scalar \<times> yaml list) list \<Rightarrow> exn + (string \<times> (yaml \<times> yaml \<times> yaml) list) list" where
  "category_sections ts [] = Inr []"
| "category_sections ts ((category, names) # rest) =
     and_then (title_of category) (\<lambda>c.
     and_then (category_lines ts names) (\<lambda>ls.
     and_then (category_sections ts rest) (\<lambda>ss. Inr ((c, ls) # ss))))"

definition generate_readme_snippet :: "string \<Rightarrow> registry \<Rightarrow> exn + snippet" where
  "generate_readme_snippet today r =
     and_then (py_sort (\<lambda>(k, ns). YList [YScalar k, YList ns]) (reg_categories r)) (\<lambda>cats.
     and_then (category_sections (templates r) cats) (\<lambda>sections.
     and_then (py_sort (\<lambda>(k, ns). YInt (- int (length ns))) (reg_tags r)) (\<lambda>by_count.
       Inr \<lparr>last_updated = today,
            shown_templates = total_templates (stats r),
            shown_versions = total_versions (stats r),
            by_category = sections,
            popular_tags = map (\<lambda>(k, ns). (k, length ns)) (take 10 by_count)\<rparr>)))"

text \<open>
  \<^verbatim>\<open>run\<close>. The two string arguments are the readings of the clock, by
  \<^verbatim>\<open>__init__\<close> and by the snippet. A run returns its exit code together with the
  registry, what it wrote and what it printed, or ends in an exception that nothing
  catches.
\<close>

record run_result =
  exit_code :: nat
  final_registry :: registry
  files :: "written option"
  printed :: "snippet option"

definition run :: "string \<Rightarrow> string \<Rightarrow> templates_root \<Rightarrow> exn + run_result" where
  "run now today root =
     (if \<not> node_exists root
      then Inr \<lparr>exit_code = 1, final_registry = init_registry now, files = None, printed = None\<rparr>
      else
        and_then (scan_templates root (init_registry now)) (\<lambda>r1.
        and_then (build_index r1) (\<lambda>r2.
        and_then (generate_readme_snippet today r2) (\<lambda>s.
          Inr \<lparr>exit_code = 0, final_registry = r2, files = Some (write_registry r2),
               printed = Some s\<rparr>))))"

section \<open>The template validator (validate-template.py)\<close>

text \<open>
  A finding is one message of the validator, kept as the message's kind together with
  the values that the source formats into it.
\<close>

datatype finding =
    MissingRequiredFile string
  | MissingRequiredDirectory string
  | MissingRequiredField string
  | AuthorNotDictionary
  | AuthorWithoutName
  | CategoriesWithoutPrimary
  | VersionWithoutLatest
  | LatestNotInVersions yaml
  | VersionWithoutDetails scalar
  | InvalidMetadataYaml
  | ErrorReadingMetadata exn
  | NoVersionDirectories
  | VersionMissingFile string string
  | MissingPolicyLibrary string
  | InvalidChart string exn
  | ExampleNotDictionary string
  | ExampleInvalidYaml string
  | ExampleReadError string exn
  | VersionMissingField scalar string
  | RecommendedField string
  | ChartWithoutDependencies string
  | NoConvertersDirectory string
  | NoExampleFiles
  | ExampleWithoutStack string
  | TemplateName yaml
  | LatestVersion yaml
  | TotalVersions nat
  | FoundVersion string
  | FoundExample string

text \<open>The three lists of a \<^verbatim>\<open>TemplateValidator\<close>.\<close>

record report =
  errors :: "finding list"
  warnings :: "finding list"
  info :: "finding list"

definition empty_report :: report where
  "empty_report = \<lparr>errors = [], warnings = [], info = []\<rparr>"

definition add_error :: "finding \<Rightarrow> report \<Rightarrow> report" where
  "add_error f rep = rep\<lparr>errors := errors rep @ [f]\<rparr>"

definition add_warning :: "finding \<Rightarrow> report \<Rightarrow> report" where
  "add_warning f rep = rep\<lparr>warnings := warnings rep @ [f]\<rparr>"

definition add_info :: "finding \<Rightarrow> report \<Rightarrow> report" where
  "add_info f rep = rep\<lparr>info := info rep @ [f]\<rparr>"

definition ok :: "report \<Rightarrow> exn option \<times> report" where
  "ok rep = (None, rep)"

subsection \<open>\<^verbatim>\<open>validate_structure\<close>\<close>

definition validate_structure :: "template_dir \<Rightarrow> report \<Rightarrow> report" where
  "validate_structure t rep =
     (let r1 = (if \<not> file_exists (metadata_yaml t) then add_error (MissingRequiredFile ''metadata.yaml'') rep else rep);
          r2 = (if \<not> readme_md t then add_error (MissingRequiredFile ''README.md'') r1 else r1);
          r3 = (if \<not> node_exists (versions_dir t) then add_error (MissingRequiredDirectory ''versions'') r2 else r2);
          r4 = (if \<not> node_exists (examples_dir t) then add_error (MissingRequiredDirectory ''examples'') r3 else r3)
      in r4)"

subsection \<open>\<^verbatim>\<open>validate_metadata\<close>\<close>

definition required_fields :: "string list" where
  "required_fields =
     [''name'', ''displayName'', ''description'', ''author'', ''categories'', ''version'', ''versions'']"

definition required_version_fields :: "string list" where
  "required_version_fields = [''date'', ''policyLibrary'', ''openshift'', ''acm'', ''changes'']"

definition recommended_fields :: "string list" where
  "recommended_fields = [''tags'', ''features'', ''requirements'', ''complexity'']"

text \<open>\<^verbatim>\<open>for field in required_fields: if field not in metadata: ...\<close>\<close>

fun check_required :: "string list \<Rightarrow> yaml \<Rightarrow> report step" where
  "check_required [] metadata = ok"
| "check_required (field # rest) metadata =
     seq (raising (py_in (YStr field) metadata) (\<lambda>present rep.
            ok (if \<not> present then add_error (MissingRequiredField field) rep else rep)))
         (check_required rest metadata)"

definition check_author :: "yaml \<Rightarrow> report step" where
  "check_author metadata =
     raising (py_in (YStr ''author'') metadata) (\<lambda>present.
       if present
       then raising (py_index metadata ''author'') (\<lambda>a.
              if \<not> is_dict a then (\<lambda>rep. ok (add_error AuthorNotDictionary rep))
              else raising (py_in (YStr ''name'') a) (\<lambda>named rep.
                     ok (if \<not> named then add_error AuthorWithoutName rep else rep)))
       else ok)"

definition check_categories :: "yaml \<Rightarrow> report step" where
  "check_categories metadata =
     raising (py_in (YStr ''categories'') metadata) (\<lambda>present.
       if present
       then raising (and_then (py_index metadata ''categories'') (py_in (YStr ''primary''))) (\<lambda>has rep.
              ok (if \<not> has then add_error CategoriesWithoutPrimary rep else rep))
       else ok)"

text \<open>
  \<^verbatim>\<open>"versions" in metadata and latest not in metadata["versions"]\<close>: the second
  operand is evaluated only when the first holds.
\<close>

definition latest_missing :: "yaml \<Rightarrow> yaml \<Rightarrow> exn + bool" where
  "latest_missing metadata latest =
     and_then (py_in (YStr ''versions'') metadata) (\<lambda>present.
       if present
       then and_then (py_index metadata ''versions'') (\<lambda>vs.
            and_then (py_in latest vs) (\<lambda>found. Inr (\<not> found)))
       else Inr False)"

definition check_version :: "yaml \<Rightarrow> report step" where
  "check_version metadata =
     raising (py_in (YStr ''version'') metadata) (\<lambda>present.
       if present
       then raising (and_then (py_index metadata ''version'') (\<lambda>v. py_get v ''latest'' YNull)) (\<lambda>latest.
              seq (\<lambda>rep. ok (if \<not> truthy latest then add_error VersionWithoutLatest rep else rep))
                  (raising (latest_missing metadata latest) (\<lambda>missing rep.
                     ok (if missing then add_error (LatestNotInVersions latest) rep else rep))))
       else ok)"

text \<open>\<^verbatim>\<open>d.items()\<close>: only a mapping has the method.\<close>

fun py_items :: "yaml \<Rightarrow> exn + (scalar \<times> yaml) list" where
  "py_items (YMap m) = Inr m"
| "py_items _ = Inl AttributeError"

fun check_version_fields :: "string list \<Rightarrow> scalar \<Rightarrow> yaml \<Rightarrow> report step" where
  "check_version_fields [] ver details = ok"
| "check_version_fields (field # rest) ver details =
     seq (raising (py_in (YStr field) details) (\<lambda>present rep.
            ok (if \<not> present then add_warning (VersionMissingField ver field) rep else rep)))
         (check_version_fields rest ver details)"

fun check_version_entries :: "(scalar \<times> yaml) list \<Rightarrow> report step" where
  "check_version_entries [] = ok"
| "check_version_entries ((ver, details) # rest) =
     seq (if \<not> is_dict details
          then (\<lambda>rep. ok (add_error (VersionWithoutDetails ver) rep))
          else check_version_fields required_version_fields ver details)
         (check_version_entries rest)"

definition check_versions :: "yaml \<Rightarrow> report step" where
  "check_versions metadata =
     raising (py_in (YStr ''versions'') metadata) (\<lambda>present.
       if present
       then raising (and_then (py_index metadata ''versions'') py_items) check_version_entries
       else ok)"

fun check_recommended :: "string list \<Rightarrow> yaml \<Rightarrow> report step" where
  "check_recommended [] metadata = ok"
| "check_recommended (field # rest) metadata =
     seq (raising (py_in (YStr field) metadata) (\<lambda>present rep.
            ok (if \<not> present then add_warning (RecommendedField field) rep else rep)))
         (check_recommended rest metadata)"

definition record_info :: "yaml \<Rightarrow> report step" where
  "record_info metadata =
     seq (raising (py_get metadata ''name'' YNull) (\<lambda>n rep. ok (add_info (TemplateName n) rep)))
    (seq (raising (and_then (py_get metadata ''version'' (YMap [])) (\<lambda>v. py_get v ''latest'' YNull))
            (\<lambda>l rep. ok (add_info (LatestVersion l) rep)))
         (raising (and_then (py_get metadata ''versions'' (YMap [])) py_len)
            (\<lambda>n rep. ok (add_info (TotalVersions n) rep))))"

text \<open>The body of the \<^verbatim>\<open>try\<close>, after the file is parsed.\<close>

definition check_metadata :: "yaml \<Rightarrow> report step" where
  "check_metadata metadata =
     seq (check_required required_fields metadata)
    (seq (check_author metadata)
    (seq (check_categories metadata)
    (seq (check_version metadata)
    (seq (check_versions metadata)
    (seq (check_recommended recommended_fields metadata)
         (record_info metadata))))))"

text \<open>The two handlers: \<^verbatim>\<open>yaml.YAMLError\<close> first, then every other exception.\<close>

fun metadata_handler :: "exn \<Rightarrow> finding" where
  "metadata_handler YAMLError = InvalidMetadataYaml"
| "metadata_handler e = ErrorReadingMetadata e"

definition validate_metadata :: "template_dir \<Rightarrow> report \<Rightarrow> report" where
  "validate_metadata t rep =
     (case raising (load_yaml (metadata_yaml t)) check_metadata rep of
        (None, rep') \<Rightarrow> rep'
      | (Some e, rep') \<Rightarrow> add_error (metadata_handler e) rep')"

subsection \<open>\<^verbatim>\<open>validate_versions\<close>\<close>

text \<open>\<^verbatim>\<open>[d for d in versions_dir.iterdir() if d.is_dir()]\<close>\<close>

fun version_dirs :: "versions_entry list \<Rightarrow> version_dir list" where
  "version_dirs [] = []"
| "version_dirs (VFile f # rest) = version_dirs rest"
| "version_dirs (VDir d # rest) = d # version_dirs rest"

text \<open>
  \<^verbatim>\<open>any(dep.get("name") == "policy-library" for dep in ...)\<close>: the generator is
  consumed up to the first dependency of that name.
\<close>

fun any_policy_library :: "yaml list \<Rightarrow> exn + bool" where
  "any_policy_library [] = Inr False"
| "any_policy_library (dep # rest) =
     and_then (py_get dep ''name'' YNull) (\<lambda>n.
       if py_eq n (YStr ''policy-library'') then Inr True else any_policy_library rest)"

text \<open>The body of the \<^verbatim>\<open>try\<close> on \<^verbatim>\<open>Chart.yaml\<close>.\<close>

definition check_chart :: "string \<Rightarrow> yaml_file \<Rightarrow> report step" where
  "check_chart ver chart_file =
     raising (load_yaml chart_file) (\<lambda>chart.
     raising (py_in (YStr ''dependencies'') chart) (\<lambda>present.
       if \<not> present then (\<lambda>rep. ok (add_warning (ChartWithoutDependencies ver) rep))
       else raising (and_then (and_then (py_get chart ''dependencies'' (YList [])) py_iter)
                       any_policy_library) (\<lambda>has_policy_lib rep.
              ok (if \<not> has_policy_lib then add_error (MissingPolicyLibrary ver) rep else rep))))"

definition validate_version_dir :: "version_dir \<Rightarrow> report \<Rightarrow> report" where
  "validate_version_dir d rep =
     (let ver = version_name d;
          r1 = (if \<not> file_exists (chart_yaml d) then add_error (VersionMissingFile ver ''Chart.yaml'') rep else rep);
          r2 = (if \<not> values_yaml d then add_error (VersionMissingFile ver ''values.yaml'') r1 else r1);
          r3 = (if file_exists (chart_yaml d)
                then (case check_chart ver (chart_yaml d) r2 of
                        (None, r') \<Rightarrow> r'
                      | (Some e, r') \<Rightarrow> add_error (InvalidChart ver e) r')
                else r2);
          r4 = (if \<not> converters d then add_warning (NoConvertersDirectory ver) r3 else r3)
      in add_info (FoundVersion ver) r4)"

text \<open>
  \<^verbatim>\<open>validate_versions\<close>. \<^verbatim>\<open>iterdir\<close> raises on a path that exists and is not a
  directory, and nothing in the validator catches that.
\<close>

definition validate_versions :: "template_dir \<Rightarrow> report \<Rightarrow> exn + report" where
  "validate_versions t rep =
     (case versions_dir t of
        Absent \<Rightarrow> Inr rep
      | NotDir \<Rightarrow> Inl NotADirectoryError
      | Dir entries \<Rightarrow>
          (if version_dirs entries = [] then Inr (add_error NoVersionDirectories rep)
           else Inr (fold validate_version_dir (version_dirs entries) rep)))"

subsection \<open>\<^verbatim>\<open>validate_examples\<close>\<close>

text \<open>\<^verbatim>\<open>glob("*.yaml")\<close> and \<^verbatim>\<open>glob("*.yml")\<close>: the names that end so.\<close>

definition ends_with :: "string \<Rightarrow> string \<Rightarrow> bool" where
  "ends_with suffix s = (length suffix \<le> length s \<and> drop (length s - length suffix) s = suffix)"

definition glob :: "string \<Rightarrow> example_file list \<Rightarrow> example_file list" where
  "glob suffix fs = filter (\<lambda>f. ends_with suffix (example_name f)) fs"

text \<open>A glob on a path that is not a directory matches nothing.\<close>

fun listing :: "'a list node \<Rightarrow> 'a list" where
  "listing (Dir entries) = entries"
| "listing _ = []"

fun example_handler :: "string \<Rightarrow> exn \<Rightarrow> finding" where
  "example_handler n YAMLError = ExampleInvalidYaml n"
| "example_handler n e = ExampleReadError n e"

definition validate_example :: "example_file \<Rightarrow> report \<Rightarrow> report" where
  "validate_example f rep =
     (let n = example_name f in
      case load_yaml (example_content f) of
        Inl e \<Rightarrow> add_error (example_handler n e) rep
      | Inr example \<Rightarrow>
          (case (if \<not> is_dict example then Inr (add_error (ExampleNotDictionary n) rep)
                 else and_then (py_in (YStr ''stack'') example) (\<lambda>has.
                        Inr (if \<not> has then add_warning (ExampleWithoutStack n) rep else rep))) of
             Inl e \<Rightarrow> add_error (example_handler n e) rep
           | Inr r' \<Rightarrow> add_info (FoundExample n) r'))"

definition validate_examples :: "template_dir \<Rightarrow> report \<Rightarrow> report" where
  "validate_examples t rep =
     (if \<not> node_exists (examples_dir t) then rep
      else
        (let example_files = glob ''.yaml'' (listing (examples_dir t)) @ glob ''.yml'' (listing (examples_dir t))
         in if example_files = [] then add_warning NoExampleFiles rep
            else fold validate_example example_files rep))"

subsection \<open>\<^verbatim>\<open>validate\<close>, \<^verbatim>\<open>validate_all_templates\<close> and \<^verbatim>\<open>main\<close>\<close>

text \<open>
  \<^verbatim>\<open>validate\<close> returns whether the template is valid; the report is returned with
  it, as it stands in the validator (and is printed) when the method returns.
\<close>

definition validate :: "template_dir \<Rightarrow> exn + (bool \<times> report)" where
  "validate t =
     (let r1 = validate_structure t empty_report;
          r2 = (if file_exists (metadata_yaml t) then validate_metadata t r1 else r1)
      in and_then (validate_versions t r2) (\<lambda>r3.
           (let r4 = validate_examples t r3 in Inr (length (errors r4) = 0, r4))))"

text \<open>\<^verbatim>\<open>[d for d in templates_path.iterdir() if d.is_dir() and not d.name.startswith('.')]\<close>\<close>

fun template_dirs :: "root_entry list \<Rightarrow> template_dir list" where
  "template_dirs [] = []"
| "template_dirs (RFile f # rest) = template_dirs rest"
| "template_dirs (RDir t # rest) = (if hidden (dir_name t) then template_dirs rest else t # template_dirs rest)"

fun validate_each :: "template_dir list \<Rightarrow> bool \<Rightarrow> exn + bool" where
  "validate_each [] all_valid = Inr all_valid"
| "validate_each (t # rest) all_valid =
     and_then (validate t) (\<lambda>(valid, rep).
       validate_each rest (if \<not> valid then False else all_valid))"

definition validate_all_templates :: "templates_root \<Rightarrow> exn + bool" where
  "validate_all_templates root =
     (case root of
        Absent \<Rightarrow> Inr False
      | NotDir \<Rightarrow> Inl NotADirectoryError
      | Dir entries \<Rightarrow>
          (if template_dirs entries = [] then Inr True
           else validate_each (template_dirs entries) True))"

text \<open>
  The command line after \<^verbatim>\<open>argparse\<close>, and the file system as the two functions
  that say what stands at a path.
\<close>

record arguments =
  arg_template :: "string option"
  arg_all :: bool
  arg_templates_dir :: string

record file_system =
  root_at :: "string \<Rightarrow> templates_root"
  template_at :: "string \<Rightarrow> template_dir"

text \<open>\<^verbatim>\<open>not args.template\<close>: no path was given, or the empty one.\<close>

fun no_template :: "string option \<Rightarrow> bool" where
  "no_template None = True"
| "no_template (Some p) = (p = [])"

text \<open>\<^verbatim>\<open>main\<close>: the result is the exit code of the process.\<close>

definition main :: "arguments \<Rightarrow> file_system \<Rightarrow> exn + nat" where
  "main args fs =
     and_then
       (if arg_all args \<or> no_template (arg_template args)
        then validate_all_templates (root_at fs (arg_templates_dir args))
        else (case arg_template args of
                None \<Rightarrow> validate_all_templates (root_at fs (arg_templates_dir args))
              | Some p \<Rightarrow> and_then (validate (template_at fs p)) (\<lambda>(valid, rep). Inr valid)))
       (\<lambda>success. Inr (if success then 0 else 1))"

section \<open>Inputs used in the examples\<close>

text \<open>
  A descriptor whose \<^verbatim>\<open>categories\<close> is a plain string instead of a mapping:
  \<^verbatim>\<open>name: demo\<close>, \<^verbatim>\<open>categories: security\<close>, \<^verbatim>\<open>versions: {"1.0": {}}\<close>.
\<close>

definition categories_as_text :: yaml where
  "categories_as_text =
     YMap [(SStr ''name'', YStr ''demo''), (SStr ''categories'', YStr ''security''),
           (SStr ''versions'', YMap [(SStr ''1.0'', YMap [])])]"

text \<open>A template directory that holds only the given descriptor.\<close>

definition bare_template :: "string \<Rightarrow> yaml_file \<Rightarrow> template_dir" where
  "bare_template d f =
     \<lparr>dir_name = d, metadata_yaml = f, readme_md = False, versions_dir = Absent, examples_dir = Absent\<rparr>"

text \<open>A descriptor without a name: \<^verbatim>\<open>displayName: ...\<close> only.\<close>

definition nameless :: "string \<Rightarrow> yaml" where
  "nameless d = YMap [(SStr ''displayName'', YStr d)]"

text \<open>A complete descriptor, with the given name, latest version and versions.\<close>

definition descriptor :: "string \<Rightarrow> string \<Rightarrow> (scalar \<times> yaml) list \<Rightarrow> yaml" where
  "descriptor n latest vs =
     YMap [(SStr ''name'', YStr n), (SStr ''displayName'', YStr n), (SStr ''description'', YStr ''text''),
           (SStr ''author'', YMap [(SStr ''name'', YStr ''Ann'')]),
           (SStr ''categories'', YMap [(SStr ''primary'', YStr ''security'')]),
           (SStr ''tags'', YList [YStr ''acm'']),
           (SStr ''version'', YMap [(SStr ''latest'', YStr latest)]),
           (SStr ''versions'', YMap vs)]"

definition version_details :: yaml where
  "version_details =
     YMap [(SStr ''date'', YStr ''2024-01-01''), (SStr ''policyLibrary'', YStr ''1.0''),
           (SStr ''openshift'', YStr ''4.14''), (SStr ''acm'', YStr ''2.9''),
           (SStr ''changes'', YList [YStr ''first''])]"

section \<open>Properties of the registry builder\<close>

lemmas builder_defs = process_template_def process_metadata_def make_entry_def and_then_def
  raising_def seq_def append_template_def update_categories_def update_tags_def count_template_def
  count_versions_def add_author_def init_registry_def index_append_def dict_has_def set_add_def
  file_exists_def node_exists_def

subsection \<open>A failing template is not skipped entirely\<close>

text \<open>
  C1. The claim: when \<open>process_template\<close> meets an error, the registry is afterwards
  exactly as before. The source appends the entry to \<open>templates\<close> before it reads the
  primary category, the tags, the version count and the author; an exception of one of
  those is caught and printed, and the entry stays. For the descriptor
  \<open>categories_as_text\<close> the call prints an \<^verbatim>\<open>AttributeError\<close> and leaves the
  template in \<open>templates\<close>, in no index and in no count.
\<close>

theorem process_template_keeps_failed_entry:
  "process_template (Parsed categories_as_text) (init_registry now) =
     (Some AttributeError,
      (init_registry now)\<lparr>templates :=
         [\<lparr>name = YStr ''demo'', displayName = YNull, description = YNull, author = YNull,
           categories = YStr ''security'', tags = YList [], version = YNull,
           versions = YMap [(SStr ''1.0'', YMap [])],
           features = 0, requirements = YNull, complexity = YNull, path = YStr ''demo''\<rparr>]\<rparr>)"
  by (simp add: builder_defs categories_as_text_def)

subsection \<open>The counts after a scan\<close>

text \<open>
  C2. The claim: after a scan \<open>total_templates\<close> is the length of \<open>templates\<close> and
  \<open>total_versions\<close> is the sum of the version counts of its entries. After the scan
  of a root that holds the one template \<open>categories_as_text\<close>, \<open>templates\<close> has one
  entry, with one version, and both counts are 0.
\<close>

theorem scan_counts_miss_failed_entry:
  "\<exists>r. scan_templates (Dir [RDir (bare_template ''demo'' (Parsed categories_as_text))])
          (init_registry now) = Inr r
     \<and> length (templates r) = 1 \<and> total_templates (stats r) = 0
     \<and> map (\<lambda>t. py_len (versions t)) (templates r) = [Inr 1] \<and> total_versions (stats r) = 0"
  by (simp add: builder_defs categories_as_text_def bare_template_def)

subsection \<open>A run over an existing root can end in an exception\<close>

text \<open>
  C3. The claim: \<open>run\<close> fails only when the root is missing. Two templates whose
  descriptors have no name are both entered with the name \<^verbatim>\<open>None\<close>;
  \<open>build_index\<close> sorts the entries by name outside every handler, the comparison of
  \<^verbatim>\<open>None\<close> with \<^verbatim>\<open>None\<close> raises \<^verbatim>\<open>TypeError\<close>, and the run ends with it: no
  registry is written and no exit code is returned.
\<close>

theorem run_raises_on_nameless_templates:
  "run now today (Dir [RDir (bare_template ''a'' (Parsed (nameless ''A''))),
                       RDir (bare_template ''b'' (Parsed (nameless ''B'')))]) = Inl TypeError"
  by (simp add: run_def build_index_def builder_defs bare_template_def nameless_def)

subsection \<open>The registry does not depend on the clock\<close>

definition ignores_clock :: "registry step \<Rightarrow> bool" where
  "ignores_clock f = (\<forall>g r. f (r\<lparr>generated := g\<rparr>) = (fst (f r), (snd (f r))\<lparr>generated := g\<rparr>))"

lemma ignores_clockI:
  "(\<And>g r. f (r\<lparr>generated := g\<rparr>) = (fst (f r), (snd (f r))\<lparr>generated := g\<rparr>)) \<Longrightarrow> ignores_clock f"
  by (simp add: ignores_clock_def)

lemma ignores_clockD:
  "ignores_clock f \<Longrightarrow> f (r\<lparr>generated := g\<rparr>) = (fst (f r), (snd (f r))\<lparr>generated := g\<rparr>)"
  by (simp add: ignores_clock_def)

lemma ignores_clock_seq: "ignores_clock f \<Longrightarrow> ignores_clock h \<Longrightarrow> ignores_clock (seq f h)"
  by (rule ignores_clockI) (auto simp: seq_def ignores_clockD split: prod.splits option.splits)

lemma ignores_clock_raising: "(\<And>x. ignores_clock (f x)) \<Longrightarrow> ignores_clock (raising v f)"
  by (rule ignores_clockI) (auto simp: raising_def ignores_clockD split: sum.splits)

lemma ignores_clock_if: "ignores_clock f \<Longrightarrow> ignores_clock h \<Longrightarrow> ignores_clock (if b then f else h)"
  by simp

lemma ignores_clock_skip: "ignores_clock (\<lambda>r. (None, r))"
  by (simp add: ignores_clock_def)

lemma ignores_clock_append_template: "ignores_clock (append_template entry)"
  by (simp add: ignores_clock_def append_template_def)

lemma ignores_clock_update_categories: "ignores_clock (update_categories metadata)"
  unfolding update_categories_def
  by (intro ignores_clock_raising ignores_clock_if ignores_clock_skip) (simp add: ignores_clock_def)

lemma ignores_clock_tags_loop: "ignores_clock (tags_loop metadata ts)"
proof (induction ts)
  case Nil
  show ?case by (simp add: ignores_clock_skip)
next
  case (Cons tag rest)
  have "ignores_clock (raising (py_hash tag) (\<lambda>k.
          raising (py_get metadata ''name'' YNull) (\<lambda>n r.
            (None, r\<lparr>reg_tags := index_append k n (reg_tags r)\<rparr>))))"
    by (intro ignores_clock_raising) (simp add: ignores_clock_def)
  with Cons show ?case by (simp add: ignores_clock_seq)
qed

lemma ignores_clock_update_tags: "ignores_clock (update_tags metadata)"
  unfolding update_tags_def by (intro ignores_clock_raising ignores_clock_tags_loop)

lemma ignores_clock_count_template: "ignores_clock count_template"
  by (simp add: ignores_clock_def count_template_def)

lemma ignores_clock_count_versions: "ignores_clock (count_versions metadata)"
  unfolding count_versions_def by (intro ignores_clock_raising) (simp add: ignores_clock_def)

lemma ignores_clock_add_author: "ignores_clock (add_author metadata)"
  unfolding add_author_def
  by (intro ignores_clock_raising ignores_clock_if ignores_clock_skip) (simp add: ignores_clock_def)

lemma ignores_clock_process_template: "ignores_clock (process_template f)"
  unfolding process_template_def process_metadata_def
  by (intro ignores_clock_raising ignores_clock_seq ignores_clock_append_template
      ignores_clock_update_categories ignores_clock_update_tags ignores_clock_count_template
      ignores_clock_count_versions ignores_clock_add_author)

lemma scan_entries_generated:
  "scan_entries es (r\<lparr>generated := g\<rparr>) = (scan_entries es r)\<lparr>generated := g\<rparr>"
proof (induction es r rule: scan_entries.induct)
  case (3 t rest r)
  then show ?case
    by (simp add: ignores_clockD [OF ignores_clock_process_template])
qed simp_all

lemma build_index_generated:
  "build_index (r\<lparr>generated := g\<rparr>) = map_sum id (\<lambda>r'. r'\<lparr>generated := g\<rparr>) (build_index r)"
  by (simp add: build_index_def and_then_def split: sum.splits)

lemma snippet_generated:
  "generate_readme_snippet today (r\<lparr>generated := g\<rparr>) = generate_readme_snippet today r"
  by (simp add: generate_readme_snippet_def)

lemma snippet_today:
  "map_sum id (\<lambda>s. ()) (generate_readme_snippet today r) =
   map_sum id (\<lambda>s. ()) (generate_readme_snippet today' r)"
  by (simp add: generate_readme_snippet_def and_then_def split: sum.splits)

lemma init_registry_generated: "init_registry now = (init_registry g)\<lparr>generated := now\<rparr>"
  by (simp add: init_registry_def)

text \<open>What a run leaves behind, up to the time stamp: its exit code and the registry with \<open>generated\<close> set to \<open>g\<close>.\<close>

definition outcome :: "string \<Rightarrow> run_result \<Rightarrow> nat \<times> registry" where
  "outcome g res = (exit_code res, (final_registry res)\<lparr>generated := g\<rparr>)"

lemma run_outcome:
  "map_sum id (outcome g) (run now today root) =
     (if \<not> node_exists root then Inr (1, init_registry g)
      else and_then (scan_templates root (init_registry g)) (\<lambda>r1.
           and_then (build_index r1) (\<lambda>r2.
           and_then (map_sum id (\<lambda>s. ()) (generate_readme_snippet [] r2))
             (\<lambda>s. Inr (0, r2\<lparr>generated := g\<rparr>)))))"
proof (cases root)
  case Absent
  then show ?thesis by (simp add: run_def node_exists_def outcome_def init_registry_def)
next
  case NotDir
  then show ?thesis by (simp add: run_def node_exists_def and_then_def)
next
  case (Dir es)
  have s: "scan_entries es (init_registry now) = (scan_entries es (init_registry g))\<lparr>generated := now\<rparr>"
    by (subst init_registry_generated [of now g]) (rule scan_entries_generated)
  show ?thesis
  proof (cases "build_index (scan_entries es (init_registry g))")
    case (Inl e)
    with Dir s show ?thesis
      by (simp add: run_def node_exists_def and_then_def build_index_generated)
  next
    case (Inr r2)
    with Dir s snippet_today [of today r2 "[]"] show ?thesis
      by (auto simp add: run_def node_exists_def and_then_def build_index_generated
          snippet_generated outcome_def split: sum.splits)
  qed
qed

text \<open>
  C4. Two runs over the same tree, at any two readings of the clock, end alike: both
  raise the same exception, or both return the same exit code and registries that are
  equal in every field once \<open>generated\<close> is set to a common value. The tree includes
  the order in which \<^verbatim>\<open>iterdir\<close> lists it.
\<close>

theorem run_deterministic:
  "map_sum id (outcome g) (run now today root) = map_sum id (outcome g) (run now' today' root)"
  by (simp only: run_outcome)

text \<open>Two runs at different times over two templates: the results differ, the outcomes do not.\<close>

theorem run_deterministic_witness:
  "run ''2026-01-01T10:00:00'' ''2026-01-01''
       (Dir [RDir (bare_template ''b'' (Parsed (descriptor ''b'' ''1.0'' [(SStr ''1.0'', version_details)]))),
             RDir (bare_template ''a'' (Parsed (descriptor ''a'' ''1.0'' [(SStr ''1.0'', version_details)])))])
   \<noteq> run ''2026-01-02T11:30:00'' ''2026-01-02''
       (Dir [RDir (bare_template ''b'' (Parsed (descriptor ''b'' ''1.0'' [(SStr ''1.0'', version_details)]))),
             RDir (bare_template ''a'' (Parsed (descriptor ''a'' ''1.0'' [(SStr ''1.0'', version_details)])))])
   \<and> map_sum id (outcome [])
        (run ''2026-01-01T10:00:00'' ''2026-01-01''
          (Dir [RDir (bare_template ''b'' (Parsed (descriptor ''b'' ''1.0'' [(SStr ''1.0'', version_details)]))),
                RDir (bare_template ''a'' (Parsed (descriptor ''a'' ''1.0'' [(SStr ''1.0'', version_details)])))]))
     = map_sum id (outcome [])
        (run ''2026-01-02T11:30:00'' ''2026-01-02''
          (Dir [RDir (bare_template ''b'' (Parsed (descriptor ''b'' ''1.0'' [(SStr ''1.0'', version_details)]))),
                RDir (bare_template ''a'' (Parsed (descriptor ''a'' ''1.0'' [(SStr ''1.0'', version_details)])))]))"
proof
  show "run ''2026-01-01T10:00:00'' ''2026-01-01''
       (Dir [RDir (bare_template ''b'' (Parsed (descriptor ''b'' ''1.0'' [(SStr ''1.0'', version_details)]))),
             RDir (bare_template ''a'' (Parsed (descriptor ''a'' ''1.0'' [(SStr ''1.0'', version_details)])))])
   \<noteq> run ''2026-01-02T11:30:00'' ''2026-01-02''
       (Dir [RDir (bare_template ''b'' (Parsed (descriptor ''b'' ''1.0'' [(SStr ''1.0'', version_details)]))),
             RDir (bare_template ''a'' (Parsed (descriptor ''a'' ''1.0'' [(SStr ''1.0'', version_details)])))])"
    by (simp add: run_def build_index_def generate_readme_snippet_def write_registry_def
        builder_defs bare_template_def descriptor_def version_details_def)
next
  show "map_sum id (outcome [])
        (run ''2026-01-01T10:00:00'' ''2026-01-01''
          (Dir [RDir (bare_template ''b'' (Parsed (descriptor ''b'' ''1.0'' [(SStr ''1.0'', version_details)]))),
                RDir (bare_template ''a'' (Parsed (descriptor ''a'' ''1.0'' [(SStr ''1.0'', version_details)])))]))
     = map_sum id (outcome [])
        (run ''2026-01-02T11:30:00'' ''2026-01-02''
          (Dir [RDir (bare_template ''b'' (Parsed (descriptor ''b'' ''1.0'' [(SStr ''1.0'', version_details)]))),
                RDir (bare_template ''a'' (Parsed (descriptor ''a'' ''1.0'' [(SStr ''1.0'', version_details)])))]))"
    by (rule run_deterministic)
qed

subsection \<open>The index is sorted\<close>

text \<open>
  Two values stand in ascending order when Python finds the first less than the second,
  or finds the second not less than the first. On strings and on integers this is
  \<open>\<le>\<close>. A list is ascending when every element stands in this order with its
  successor.
\<close>

definition in_order :: "yaml \<Rightarrow> yaml \<Rightarrow> bool" where
  "in_order a b = (py_lt a b = Inr True \<or> py_lt b a = Inr False)"

definition ascending :: "yaml list \<Rightarrow> bool" where
  "ascending xs = successively in_order xs"

lemma py_insort_head:
  "py_insort key x ys = Inr zs \<Longrightarrow>
     \<exists>z rest. zs = z # rest \<and> (z = x \<or> (\<exists>ys'. ys = z # ys' \<and> py_lt (key z) (key x) = Inr True))"
  by (cases ys) (auto split: sum.splits bool.splits)

lemma py_insort_ascending:
  "py_insort key x ys = Inr zs \<Longrightarrow> ascending (map key ys) \<Longrightarrow> ascending (map key zs)"
proof (induction ys arbitrary: zs)
  case Nil
  then show ?case by (auto simp: ascending_def)
next
  case (Cons y ys)
  show ?case
  proof (cases "py_lt (key y) (key x)")
    case (Inl e)
    with Cons.prems show ?thesis by simp
  next
    case (Inr b)
    show ?thesis
    proof (cases b)
      case False
      with Inr Cons.prems show ?thesis
        by (auto simp: ascending_def in_order_def)
    next
      case True
      with Inr Cons.prems obtain zs' where ins: "py_insort key x ys = Inr zs'" and zs: "zs = y # zs'"
        by (auto split: sum.splits)
      from Cons.prems(2) have "ascending (map key ys)"
        by (cases ys) (auto simp: ascending_def)
      with Cons.IH ins have asc: "ascending (map key zs')" by blast
      from py_insort_head [OF ins] obtain z rest where
        z: "zs' = z # rest" "z = x \<or> (\<exists>ys'. ys = z # ys' \<and> py_lt (key z) (key x) = Inr True)"
        by blast
      have "in_order (key y) (key z)"
      proof (cases "z = x")
        case True
        with Inr \<open>b\<close> show ?thesis by (simp add: in_order_def)
      next
        case False
        with z obtain ys' where "ys = z # ys'" by blast
        with Cons.prems(2) show ?thesis by (simp add: ascending_def)
      qed
      with asc z zs show ?thesis by (simp add: ascending_def)
    qed
  qed
qed

lemma py_sort_ascending: "py_sort key xs = Inr ys \<Longrightarrow> ascending (map key ys)"
proof (induction xs arbitrary: ys)
  case Nil
  then show ?case by (simp add: ascending_def)
next
  case (Cons x xs)
  then show ?case by (auto split: sum.splits dest: py_insort_ascending)
qed

lemma sort_lists_ascending:
  "sort_lists d = Inr d' \<Longrightarrow> list_all (\<lambda>(k, ns). ascending ns) d'"
proof (induction d arbitrary: d')
  case Nil
  then show ?case by simp
next
  case (Cons kv d)
  obtain k ns where kv: "kv = (k, ns)" by (cases kv)
  from Cons.prems kv obtain ns' d'' where
    "py_sort (\<lambda>n. n) ns = Inr ns'" "sort_lists d = Inr d''" "d' = (k, ns') # d''"
    by (auto simp: and_then_def split: sum.splits)
  with Cons.IH py_sort_ascending [of "\<lambda>n. n" ns ns'] show ?case by simp
qed

text \<open>
  C5. When \<open>build_index\<close> returns, the templates are in ascending order of their
  names, every list of names of the category index and of the tag index is ascending,
  and so is the list of authors.
\<close>

theorem build_index_sorted:
  assumes "build_index r = Inr r'"
  shows "ascending (map name (templates r'))
       \<and> list_all (\<lambda>(category, names). ascending names) (reg_categories r')
       \<and> list_all (\<lambda>(tag, names). ascending names) (reg_tags r')
       \<and> ascending (map YScalar (authors (stats r')))"
proof -
  from assms obtain ts cs gs as where
    ts: "py_sort name (templates r) = Inr ts" and cs: "sort_lists (reg_categories r) = Inr cs"
    and gs: "sort_lists (reg_tags r) = Inr gs" and as: "py_sort YScalar (authors (stats r)) = Inr as"
    and r': "r' = r\<lparr>templates := ts, reg_categories := cs, reg_tags := gs, stats := (stats r)\<lparr>authors := as\<rparr>\<rparr>"
    by (auto simp: build_index_def and_then_def split: sum.splits)
  from ts have "ascending (map name ts)" by (rule py_sort_ascending)
  moreover from cs have "list_all (\<lambda>(category, names). ascending names) cs" by (rule sort_lists_ascending)
  moreover from gs have "list_all (\<lambda>(tag, names). ascending names) gs" by (rule sort_lists_ascending)
  moreover from as have "ascending (map YScalar as)" by (rule py_sort_ascending)
  ultimately show ?thesis using r' by simp
qed

text \<open>On names and authors that are all strings, ascending is sorted.\<close>

lemma in_order_strings: "in_order (YStr a) (YStr b) = (a \<le> b)"
  by (auto simp: in_order_def)

lemma ascending_strings: "ascending (map YStr ss) = sorted ss"
proof -
  have "ascending (map YStr ss) = successively (\<le>) ss"
    by (simp add: ascending_def successively_map in_order_strings)
  also have "\<dots> = sorted ss"
    by (simp add: successively_conv_sorted_wrt)
  finally show ?thesis .
qed

lemma in_order_ints: "in_order (YInt a) (YInt b) = (a \<le> b)"
  by (auto simp: in_order_def)


text \<open>The index of two templates scanned in the order b, a.\<close>

theorem build_index_sorted_witness:
  "\<exists>r'. build_index (scan_entries
            [RDir (bare_template ''b'' (Parsed (descriptor ''b'' ''1.0'' []))),
             RDir (bare_template ''a'' (Parsed (descriptor ''a'' ''1.0'' [])))] (init_registry [])) = Inr r'
     \<and> map name (templates r') = [YStr ''a'', YStr ''b'']
     \<and> reg_categories r' = [(SStr ''security'', [YStr ''a'', YStr ''b''])]
     \<and> ascending (map name (templates r'))
     \<and> list_all (\<lambda>(category, names). ascending names) (reg_categories r')
     \<and> list_all (\<lambda>(tag, names). ascending names) (reg_tags r')
     \<and> ascending (map YScalar (authors (stats r')))"
proof -
  have "\<exists>r'. build_index (scan_entries
            [RDir (bare_template ''b'' (Parsed (descriptor ''b'' ''1.0'' []))),
             RDir (bare_template ''a'' (Parsed (descriptor ''a'' ''1.0'' [])))] (init_registry [])) = Inr r'
     \<and> map name (templates r') = [YStr ''a'', YStr ''b'']
     \<and> reg_categories r' = [(SStr ''security'', [YStr ''a'', YStr ''b''])]"
    by (simp add: build_index_def builder_defs bare_template_def descriptor_def)
  then obtain r' where r': "build_index (scan_entries
            [RDir (bare_template ''b'' (Parsed (descriptor ''b'' ''1.0'' []))),
             RDir (bare_template ''a'' (Parsed (descriptor ''a'' ''1.0'' [])))] (init_registry [])) = Inr r'"
     "map name (templates r') = [YStr ''a'', YStr ''b'']"
     "reg_categories r' = [(SStr ''security'', [YStr ''a'', YStr ''b''])]"
    by (elim exE conjE)
  from build_index_sorted [OF r'(1)] r' show ?thesis by (intro exI conjI) (elim conjE, assumption)+
qed

section \<open>Properties of the template validator\<close>

subsection \<open>Which checks run\<close>

text \<open>The findings of one report after those of another.\<close>

definition report_append :: "report \<Rightarrow> report \<Rightarrow> report" where
  "report_append a b =
     \<lparr>errors = errors a @ errors b, warnings = warnings a @ warnings b, info = info a @ info b\<rparr>"



lemma report_append_sel [simp]:
  "errors (report_append a b) = errors a @ errors b"
  "warnings (report_append a b) = warnings a @ warnings b"
  "info (report_append a b) = info a @ info b"
  by (simp_all add: report_append_def)






































lemmas validator_defs = validate_def validate_structure_def validate_metadata_def check_metadata_def
  check_author_def check_categories_def check_version_def latest_missing_def check_versions_def
  record_info_def required_fields_def required_version_fields_def recommended_fields_def
  validate_versions_def validate_version_dir_def check_chart_def validate_examples_def
  validate_example_def glob_def ends_with_def add_error_def add_warning_def add_info_def ok_def
  empty_report_def and_then_def raising_def seq_def dict_has_def file_exists_def node_exists_def
  report_append_def Let_def

text \<open>
  A template with an error in each of the four checks: no \<^verbatim>\<open>README.md\<close>, a
  descriptor with five fields missing and a string as author, a version without
  \<^verbatim>\<open>Chart.yaml\<close>, and an example that is a sequence.
\<close>

definition broken_template :: template_dir where
  "broken_template =
     \<lparr>dir_name = ''broken'',
      metadata_yaml = Parsed (YMap [(SStr ''name'', YStr ''broken''), (SStr ''author'', YStr ''Ann'')]),
      readme_md = False,
      versions_dir = Dir [VDir \<lparr>version_name = ''1.0'', chart_yaml = Missing, values_yaml = True, converters = True\<rparr>],
      examples_dir = Dir [\<lparr>example_name = ''one.yaml'', example_content = Parsed (YList [])\<rparr>]\<rparr>"


















text \<open>The files that \<open>validate_examples\<close> looks at.\<close>

definition example_files :: "template_dir \<Rightarrow> example_file list" where
  "example_files t = glob ''.yaml'' (listing (examples_dir t)) @ glob ''.yml'' (listing (examples_dir t))"








subsection \<open>The latest version must be one of the versions\<close>

text \<open>On a mapping, the loops over field names raise nothing and report the names that are no keys.\<close>

lemma check_required_map:
  "check_required fs (YMap m) rep =
     (None, rep\<lparr>errors := errors rep @ map MissingRequiredField (filter (\<lambda>f. \<not> dict_has m (SStr f)) fs)\<rparr>)"
  by (induction fs arbitrary: rep) (simp_all add: ok_def seq_def raising_def add_error_def)

lemma check_recommended_map:
  "check_recommended fs (YMap m) rep =
     (None, rep\<lparr>warnings := warnings rep @ map RecommendedField (filter (\<lambda>f. \<not> dict_has m (SStr f)) fs)\<rparr>)"
  by (induction fs arbitrary: rep) (simp_all add: ok_def seq_def raising_def add_warning_def)

lemma check_version_fields_map:
  "check_version_fields fs ver (YMap d) rep =
     (None, rep\<lparr>warnings := warnings rep @
        map (VersionMissingField ver) (filter (\<lambda>f. \<not> dict_has d (SStr f)) fs)\<rparr>)"
  by (induction fs arbitrary: rep) (simp_all add: ok_def seq_def raising_def add_warning_def)

text \<open>
  C8. A descriptor with the seven required fields, an author mapping with a name, a
  categories mapping with a primary category, a version mapping whose \<^verbatim>\<open>latest\<close> is
  \<^verbatim>\<open>"2.0"\<close>, and a versions mapping with the one key \<^verbatim>\<open>"1.0"\<close> whose details
  are a mapping: \<open>validate_metadata\<close> records exactly one error, that the latest
  version \<^verbatim>\<open>2.0\<close> is not found in versions.
\<close>

theorem latest_not_in_versions:
  assumes "metadata_yaml t = Parsed (YMap m)"
    and "dict_has m (SStr ''name'')" and "dict_has m (SStr ''displayName'')"
    and "dict_has m (SStr ''description'')"
    and "dict_lookup m (SStr ''author'') = Some (YMap a)" and "dict_has a (SStr ''name'')"
    and "dict_lookup m (SStr ''categories'') = Some (YMap c)" and "dict_has c (SStr ''primary'')"
    and "dict_lookup m (SStr ''version'') = Some (YMap v)"
    and "dict_lookup v (SStr ''latest'') = Some (YStr ''2.0'')"
    and "dict_lookup m (SStr ''versions'') = Some (YMap [(SStr ''1.0'', YMap d)])"
  shows "errors (validate_metadata t rep) = errors rep @ [LatestNotInVersions (YStr ''2.0'')]"
proof -
  have req: "filter (\<lambda>f. \<not> dict_has m (SStr f)) required_fields = []"
    using assms by (simp add: required_fields_def dict_has_def)
  have 1: "check_required required_fields (YMap m) rep = (None, rep)"
    by (simp add: check_required_map req)
  have 2: "check_author (YMap m) rep = (None, rep)"
    using assms by (simp add: check_author_def raising_def ok_def dict_has_def)
  have 3: "check_categories (YMap m) rep = (None, rep)"
    using assms by (simp add: check_categories_def raising_def and_then_def ok_def dict_has_def)
  have 4: "check_version (YMap m) rep = (None, add_error (LatestNotInVersions (YStr ''2.0'')) rep)"
    using assms
    by (simp add: check_version_def latest_missing_def raising_def and_then_def seq_def ok_def dict_has_def)
  have 5: "\<exists>ws. check_versions (YMap m) r = (None, r\<lparr>warnings := ws\<rparr>)" for r
    using assms
    by (auto simp add: check_versions_def raising_def and_then_def seq_def ok_def dict_has_def
        check_version_fields_map)
  have 6: "\<exists>ws. check_recommended recommended_fields (YMap m) r = (None, r\<lparr>warnings := ws\<rparr>)" for r
    by (auto simp add: check_recommended_map)
  have 7: "\<exists>ifs. record_info (YMap m) r = (None, r\<lparr>info := ifs\<rparr>)" for r
    using assms
    by (auto simp add: record_info_def raising_def and_then_def seq_def ok_def dict_has_def add_info_def)
  let ?r4 = "add_error (LatestNotInVersions (YStr ''2.0'')) rep"
  from 5 obtain ws where 5: "check_versions (YMap m) ?r4 = (None, ?r4\<lparr>warnings := ws\<rparr>)" by blast
  from 6 [of "?r4\<lparr>warnings := ws\<rparr>"]
  obtain ws' where 6: "check_recommended recommended_fields (YMap m) (?r4\<lparr>warnings := ws\<rparr>) =
     (None, ?r4\<lparr>warnings := ws'\<rparr>)" by auto
  from 7 [of "?r4\<lparr>warnings := ws'\<rparr>"]
  obtain ifs where 7: "record_info (YMap m) (?r4\<lparr>warnings := ws'\<rparr>) =
     (None, ?r4\<lparr>warnings := ws', info := ifs\<rparr>)" by auto
  have "check_metadata (YMap m) rep = (None, ?r4\<lparr>warnings := ws', info := ifs\<rparr>)"
    by (simp add: check_metadata_def seq_def 1 2 3 4 5 6 7)
  with assms(1) show ?thesis
    by (simp add: validate_metadata_def raising_def add_error_def)
qed

theorem latest_not_in_versions_witness:
  "errors (validate_metadata
      (bare_template ''demo'' (Parsed (descriptor ''demo'' ''2.0'' [(SStr ''1.0'', version_details)])))
      empty_report) = [LatestNotInVersions (YStr ''2.0'')]"
  using latest_not_in_versions [of "bare_template ''demo'' (Parsed (descriptor ''demo'' ''2.0'' [(SStr ''1.0'', version_details)]))"
      "[(SStr ''name'', YStr ''demo''), (SStr ''displayName'', YStr ''demo''), (SStr ''description'', YStr ''text''),
           (SStr ''author'', YMap [(SStr ''name'', YStr ''Ann'')]),
           (SStr ''categories'', YMap [(SStr ''primary'', YStr ''security'')]),
           (SStr ''tags'', YList [YStr ''acm'']),
           (SStr ''version'', YMap [(SStr ''latest'', YStr ''2.0'')]),
           (SStr ''versions'', YMap [(SStr ''1.0'', version_details)])]"
      "[(SStr ''name'', YStr ''Ann'')]" "[(SStr ''primary'', YStr ''security'')]"
      "[(SStr ''latest'', YStr ''2.0'')]"
      "[(SStr ''date'', YStr ''2024-01-01''), (SStr ''policyLibrary'', YStr ''1.0''),
           (SStr ''openshift'', YStr ''4.14''), (SStr ''acm'', YStr ''2.9''),
           (SStr ''changes'', YList [YStr ''first''])]" empty_report]
  by (simp add: bare_template_def descriptor_def version_details_def dict_has_def empty_report_def)

subsection \<open>A descriptor that is not a mapping\<close>

fun is_text :: "scalar \<Rightarrow> bool" where
  "is_text (SStr s) = True"
| "is_text _ = False"

text \<open>
  C10, amended. A descriptor that parses to null, a boolean or an integer makes the
  first membership test raise \<^verbatim>\<open>TypeError\<close>: \<open>validate_metadata\<close> records the one
  catch-all error and nothing else.
\<close>

theorem scalar_document_one_error:
  assumes "metadata_yaml t = Parsed (YScalar s)" and "\<not> is_text s"
  shows "validate_metadata t rep = add_error (ErrorReadingMetadata TypeError) rep"
  using assms
  by (cases s) (simp_all add: validate_metadata_def check_metadata_def required_fields_def raising_def seq_def)

text \<open>
  The claim C10 as stated fails for the descriptor that is the bare string
  \<^verbatim>\<open>hello\<close>: \<^verbatim>\<open>"name" in "hello"\<close> is a substring test, so the seven required
  fields are reported missing and the four recommended fields are warned about, before
  \<^verbatim>\<open>metadata.get\<close> raises and the catch-all error is recorded as the eighth error.
\<close>

theorem text_document_many_errors:
  "validate_metadata (bare_template ''demo'' (Parsed (YStr ''hello''))) empty_report =
     \<lparr>errors = [MissingRequiredField ''name'', MissingRequiredField ''displayName'',
                MissingRequiredField ''description'', MissingRequiredField ''author'',
                MissingRequiredField ''categories'', MissingRequiredField ''version'',
                MissingRequiredField ''versions'', ErrorReadingMetadata AttributeError],
      warnings = [RecommendedField ''tags'', RecommendedField ''features'',
                  RecommendedField ''requirements'', RecommendedField ''complexity''],
      info = []\<rparr>"
  by (simp add: bare_template_def validator_defs)

theorem scalar_document_one_error_witness:
  "validate_metadata (bare_template ''demo'' (Parsed YNull)) empty_report =
     \<lparr>errors = [ErrorReadingMetadata TypeError], warnings = [], info = []\<rparr>"
  using scalar_document_one_error [of "bare_template ''demo'' (Parsed YNull)" SNull empty_report]
  by (simp add: bare_template_def add_error_def empty_report_def)

subsection \<open>Validity and the exit code\<close>

text \<open>
  The templates that a call of \<open>main\<close> validates: every directory of the root that is
  not hidden, or the one template named on the command line.
\<close>

definition validates_all :: "arguments \<Rightarrow> bool" where
  "validates_all args = (arg_all args \<or> no_template (arg_template args))"

definition validated :: "arguments \<Rightarrow> file_system \<Rightarrow> template_dir list" where
  "validated args fs =
     (if validates_all args then template_dirs (listing (root_at fs (arg_templates_dir args)))
      else (case arg_template args of None \<Rightarrow> [] | Some p \<Rightarrow> [template_at fs p]))"

text \<open>The validation of the template returns, and its report has no error.\<close>

definition error_free :: "template_dir \<Rightarrow> bool" where
  "error_free t = (case validate t of Inl e \<Rightarrow> False | Inr (valid, rep) \<Rightarrow> errors rep = [])"

text \<open>When all templates are validated, the templates directory exists.\<close>

definition root_found :: "arguments \<Rightarrow> file_system \<Rightarrow> bool" where
  "root_found args fs =
     (if validates_all args then node_exists (root_at fs (arg_templates_dir args)) else True)"

lemma validate_valid: "validate t = Inr (valid, rep) \<Longrightarrow> valid = (errors rep = [])"
  by (auto simp: validate_def Let_def and_then_def split: sum.splits)

lemma validate_each_all:
  "validate_each ts b = Inr r \<Longrightarrow> r = (b \<and> list_all error_free ts)"
proof (induction ts arbitrary: b)
  case Nil
  then show ?case by simp
next
  case (Cons t ts)
  from Cons.prems obtain valid rep where v: "validate t = Inr (valid, rep)"
    and rest: "validate_each ts (if \<not> valid then False else b) = Inr r"
    by (auto simp: and_then_def split: sum.splits)
  from validate_valid [OF v] v have "error_free t = valid" by (simp add: error_free_def)
  with Cons.IH [OF rest] show ?case by auto
qed

text \<open>
  C6, amended. \<open>validate\<close> returns true exactly when the report it leaves has no
  error. When \<open>main\<close> returns, its exit code is 0 exactly when every validated
  template has no error and, if all templates are validated, the templates directory
  exists; otherwise it is 1.
\<close>

theorem exit_code_reports_errors:
  "(validate t = Inr (valid, rep) \<longrightarrow> valid = (errors rep = []))
   \<and> (main args fs = Inr code \<longrightarrow>
        code = (if root_found args fs \<and> list_all error_free (validated args fs) then 0 else 1))"
proof (intro conjI impI)
  assume "validate t = Inr (valid, rep)"
  then show "valid = (errors rep = [])" by (rule validate_valid)
next
  assume m: "main args fs = Inr code"
  show "code = (if root_found args fs \<and> list_all error_free (validated args fs) then 0 else 1)"
  proof (cases "validates_all args")
    case True
    show ?thesis
    proof (cases "root_at fs (arg_templates_dir args)")
      case Absent
      with m True show ?thesis
        by (simp add: main_def validates_all_def validate_all_templates_def and_then_def root_found_def
            node_exists_def split: option.splits)
    next
      case NotDir
      with m True show ?thesis
        by (simp add: main_def validates_all_def validate_all_templates_def and_then_def split: option.splits)
    next
      case (Dir entries)
      show ?thesis
      proof (cases "template_dirs entries = []")
        case e: True
        with m True Dir show ?thesis
          by (auto simp add: main_def validates_all_def validate_all_templates_def and_then_def root_found_def
              node_exists_def validated_def split: option.splits)
      next
        case e: False
        with m True Dir obtain r where r: "validate_each (template_dirs entries) True = Inr r"
          and c: "code = (if r then 0 else 1)"
          by (auto simp add: main_def validates_all_def validate_all_templates_def and_then_def
              split: option.splits sum.splits)
        from validate_each_all [OF r] c True Dir show ?thesis
          by (simp add: root_found_def node_exists_def validated_def)
      qed
    qed
  next
    case False
    then obtain p where p: "arg_template args = Some p"
      by (cases "arg_template args") (auto simp: validates_all_def)
    with m False obtain valid' rep' where v: "validate (template_at fs p) = Inr (valid', rep')"
      and c: "code = (if valid' then 0 else 1)"
      by (auto simp add: main_def validates_all_def and_then_def split: sum.splits)
    from validate_valid [OF v] v have "error_free (template_at fs p) = valid'" by (simp add: error_free_def)
    with c False p show ?thesis by (simp add: root_found_def validated_def)
  qed
qed

text \<open>
  The claim C6 as stated fails when the templates directory is missing:
  \<open>validate_all_templates\<close> returns false at once, so the exit code is 1 although no
  template was validated and none has an error.
\<close>

theorem exit_code_missing_root:
  "main \<lparr>arg_template = None, arg_all = True, arg_templates_dir = ''templates''\<rparr>
        \<lparr>root_at = (\<lambda>p. Absent), template_at = (\<lambda>p. bare_template p Missing)\<rparr> = Inr 1
   \<and> validated \<lparr>arg_template = None, arg_all = True, arg_templates_dir = ''templates''\<rparr>
        \<lparr>root_at = (\<lambda>p. Absent), template_at = (\<lambda>p. bare_template p Missing)\<rparr> = []
   \<and> list_all error_free
        (validated \<lparr>arg_template = None, arg_all = True, arg_templates_dir = ''templates''\<rparr>
           \<lparr>root_at = (\<lambda>p. Absent), template_at = (\<lambda>p. bare_template p Missing)\<rparr>)"
  by (simp add: main_def validate_all_templates_def and_then_def validated_def validates_all_def)


text \<open>A template that passes every check, and a tree that holds it beside \<open>broken_template\<close>.\<close>

definition complete_template :: template_dir where
  "complete_template =
     \<lparr>dir_name = ''complete'',
      metadata_yaml = Parsed (descriptor ''complete'' ''1.0'' [(SStr ''1.0'', version_details)]),
      readme_md = True,
      versions_dir = Dir [VDir \<lparr>version_name = ''1.0'',
          chart_yaml = Parsed (YMap [(SStr ''dependencies'',
                                      YList [YMap [(SStr ''name'', YStr ''policy-library'')]])]),
          values_yaml = True, converters = True\<rparr>],
      examples_dir = Dir [\<lparr>example_name = ''basic.yaml'',
                           example_content = Parsed (YMap [(SStr ''stack'', YMap [])])\<rparr>]\<rparr>"

definition demo_tree :: file_system where
  "demo_tree =
     \<lparr>root_at = (\<lambda>p. if p = ''templates'' then Dir [RDir complete_template, RFile ''README.md'', RDir broken_template]
                       else Absent),
      template_at = (\<lambda>p. if p = ''templates/complete'' then complete_template else bare_template p Missing)\<rparr>"

lemma validate_complete_template:
  "\<exists>rep. validate complete_template = Inr (True, rep)"
  by (simp add: complete_template_def descriptor_def version_details_def validator_defs)

lemma validate_broken_template:
  "\<exists>rep. validate broken_template = Inr (False, rep)"
  by (simp add: broken_template_def validator_defs)

theorem exit_code_reports_errors_witness:
  "main \<lparr>arg_template = Some ''templates/complete'', arg_all = False, arg_templates_dir = ''templates''\<rparr>
        demo_tree = Inr 0
   \<and> list_all error_free
        (validated \<lparr>arg_template = Some ''templates/complete'', arg_all = False, arg_templates_dir = ''templates''\<rparr>
           demo_tree)
   \<and> main \<lparr>arg_template = None, arg_all = False, arg_templates_dir = ''templates''\<rparr> demo_tree = Inr 1
   \<and> \<not> list_all error_free
        (validated \<lparr>arg_template = None, arg_all = False, arg_templates_dir = ''templates''\<rparr> demo_tree)"
proof -
  let ?one = "\<lparr>arg_template = Some ''templates/complete'', arg_all = False, arg_templates_dir = ''templates''\<rparr>"
  let ?all = "\<lparr>arg_template = None, arg_all = False, arg_templates_dir = ''templates''\<rparr>"
  from validate_complete_template obtain rep where c: "validate complete_template = Inr (True, rep)" by blast
  from validate_broken_template obtain rep' where b: "validate broken_template = Inr (False, rep')" by blast
  have one: "main ?one demo_tree = Inr 0"
    by (simp add: main_def demo_tree_def and_then_def c)
  have names: "dir_name complete_template = ''complete''" "dir_name broken_template = ''broken''"
    by (simp_all add: complete_template_def broken_template_def)
  have dirs: "template_dirs [RDir complete_template, RFile ''README.md'', RDir broken_template] =
      [complete_template, broken_template]"
    by (simp add: names)
  have all: "main ?all demo_tree = Inr 1"
    by (simp add: main_def demo_tree_def validate_all_templates_def and_then_def names c b)
  have found: "root_found ?all demo_tree"
    by (simp add: root_found_def validates_all_def demo_tree_def node_exists_def)
  have "(0::nat) = (if root_found ?one demo_tree \<and> list_all error_free (validated ?one demo_tree) then 0 else 1)"
    using exit_code_reports_errors [of complete_template True rep ?one demo_tree 0] one by blast
  then have 1: "list_all error_free (validated ?one demo_tree)"
    by (cases "root_found ?one demo_tree \<and> list_all error_free (validated ?one demo_tree)") simp_all
  have "(1::nat) = (if root_found ?all demo_tree \<and> list_all error_free (validated ?all demo_tree) then 0 else 1)"
    using exit_code_reports_errors [of complete_template True rep ?all demo_tree 1] all by blast
  then have 2: "\<not> list_all error_free (validated ?all demo_tree)"
    using found by (cases "list_all error_free (validated ?all demo_tree)") simp_all
  from one 1 all 2 show ?thesis by (intro conjI)
qed

subsection \<open>Adding a required file or field\<close>

text \<open>
  A change adds one required entry of the template directory, or one field to a
  descriptor that is a mapping (the new key comes last, as in a file to which the field
  is appended). It is applicable where what it adds is missing.
\<close>

datatype change =
    AddReadme
  | AddMetadata yaml_file
  | AddVersions "versions_entry list"
  | AddExamples "example_file list"
  | AddField string yaml



text \<open>
  The errors that each check can record: those of \<open>validate_metadata\<close>, of
  \<open>validate_versions\<close> and of \<open>validate_examples\<close>, and, for a field of the
  descriptor, those of the field checks that read the field: every field check reads the
  field it is named after, and the check of the latest version reads \<^verbatim>\<open>versions\<close> too.
\<close>

fun metadata_finding :: "finding \<Rightarrow> bool" where
  "metadata_finding (MissingRequiredField g) = True"
| "metadata_finding AuthorNotDictionary = True"
| "metadata_finding AuthorWithoutName = True"
| "metadata_finding CategoriesWithoutPrimary = True"
| "metadata_finding VersionWithoutLatest = True"
| "metadata_finding (LatestNotInVersions l) = True"
| "metadata_finding (VersionWithoutDetails k) = True"
| "metadata_finding InvalidMetadataYaml = True"
| "metadata_finding (ErrorReadingMetadata e) = True"
| "metadata_finding _ = False"

fun versions_finding :: "finding \<Rightarrow> bool" where
  "versions_finding NoVersionDirectories = True"
| "versions_finding (VersionMissingFile ver f) = True"
| "versions_finding (MissingPolicyLibrary ver) = True"
| "versions_finding (InvalidChart ver e) = True"
| "versions_finding _ = False"

fun examples_finding :: "finding \<Rightarrow> bool" where
  "examples_finding (ExampleNotDictionary n) = True"
| "examples_finding (ExampleInvalidYaml n) = True"
| "examples_finding (ExampleReadError n e) = True"
| "examples_finding _ = False"

fun field_finding :: "string \<Rightarrow> finding \<Rightarrow> bool" where
  "field_finding f (MissingRequiredField g) = (g = f)"
| "field_finding f AuthorNotDictionary = (f = ''author'')"
| "field_finding f AuthorWithoutName = (f = ''author'')"
| "field_finding f CategoriesWithoutPrimary = (f = ''categories'')"
| "field_finding f VersionWithoutLatest = (f = ''version'')"
| "field_finding f (LatestNotInVersions l) = (f = ''version'' \<or> f = ''versions'')"
| "field_finding f (VersionWithoutDetails k) = (f = ''versions'')"
| "field_finding f _ = False"

text \<open>
  An error is related to a change when it is the error of the missing entry or an error of
  the check that reads what the change adds.
\<close>

fun related :: "change \<Rightarrow> finding \<Rightarrow> bool" where
  "related AddReadme e = (e = MissingRequiredFile ''README.md'')"
| "related (AddMetadata f) e = (e = MissingRequiredFile ''metadata.yaml'' \<or> metadata_finding e)"
| "related (AddVersions entries) e = (e = MissingRequiredDirectory ''versions'' \<or> versions_finding e)"
| "related (AddExamples fs) e = (e = MissingRequiredDirectory ''examples'' \<or> examples_finding e)"
| "related (AddField f v) e = field_finding f e"

definition unrelated :: "change \<Rightarrow> finding list \<Rightarrow> finding list" where
  "unrelated c es = filter (\<lambda>e. \<not> related c e) es"



text \<open>Looking up a mapping to which a key was added.\<close>

lemma dict_lookup_append:
  "dict_lookup (m @ [(k', v)]) k =
     (case dict_lookup m k of Some w \<Rightarrow> Some w | None \<Rightarrow> if scalar_eq k' k then Some v else None)"
  by (induction m) auto

lemma lookup_added_other:
  "g \<noteq> f \<Longrightarrow> dict_lookup (m @ [(SStr f, v)]) (SStr g) = dict_lookup m (SStr g)"
  by (simp add: dict_lookup_append split: option.splits)



lemma py_in_key [simp]: "py_in (YStr g) (YMap m) = Inr (dict_has m (SStr g))"
  by simp





lemma record_info_other:
  "f \<noteq> ''name'' \<Longrightarrow> f \<noteq> ''version'' \<Longrightarrow> f \<noteq> ''versions'' \<Longrightarrow>
     record_info (YMap (m @ [(SStr f, v)])) = record_info (YMap m)"
  by (simp add: record_info_def lookup_added_other cong: if_cong)


text \<open>
  A field check carries over from the descriptor before the change to the one after it:
  if it raises nothing after the change, it raised nothing before, and the errors not
  related to the field are the same.
\<close>

definition other_errors :: "string \<Rightarrow> report \<Rightarrow> finding list" where
  "other_errors f r = filter (\<lambda>e. \<not> field_finding f e) (errors r)"

lemma other_errors_append [simp]:
  "other_errors f (report_append a b) = other_errors f a @ other_errors f b"
  by (simp add: other_errors_def)

lemma other_errors_empty [simp]: "other_errors f empty_report = []"
  by (simp add: other_errors_def empty_report_def)

















































lemma unrelated_append [simp]: "unrelated c (xs @ ys) = unrelated c xs @ unrelated c ys"
  by (simp add: unrelated_def)

lemma unrelated_Nil [simp]: "unrelated c [] = []"
  by (simp add: unrelated_def)

















end
